theory Spec2Isabelle
  imports Main
begin

section \<open>Data model\<close>

text \<open>
  The service is a NestJS application: \<^verbatim>\<open>AuthService\<close> (registration, login, refresh,
  logout) works on a TypeORM repository of \<^verbatim>\<open>User\<close> rows, signs tokens through
  \<^verbatim>\<open>JwtService\<close> and hashes with bcrypt; two Passport strategies and a roles guard
  stand in front of the controllers. The repository is modelled as the list of its
  rows, passed in and returned; every exception the code throws is a value \<open>Inl e\<close>
  of the result.
\<close>

datatype UserRole = USER | ADMIN | MODERATOR

text \<open>The claims object that \<^verbatim>\<open>generateTokens\<close> signs: \<^verbatim>\<open>{ sub, email, role }\<close>.\<close>

record JwtPayload =
  sub :: string
  email :: string
  role :: UserRole

text \<open>
  Strings that reach \<^verbatim>\<open>bcrypt\<close> or the token verifier. A string is either some
  plain text (a password, or a token field that no key ever signed) or a compact JWT
  as \<^verbatim>\<open>jsonwebtoken\<close> produces it with HS256: the claims, the issue time
  \<^verbatim>\<open>iat\<close> and the expiry \<^verbatim>\<open>exp\<close> (both in whole seconds), and the signature,
  which is a function of those three and of the signing key. A JWT is therefore
  written symbolically as \<open>Jwt claims iat exp key\<close>: two of them are the same string
  exactly when claims, times and key agree.
\<close>

datatype jwt_string = Plain string | Jwt JwtPayload nat nat string

text \<open>
  A row of the users table. The fields are those of the \<^verbatim>\<open>User\<close> objects the sources
  build (\<^verbatim>\<open>jwt.strategy.spec.ts\<close>); the two timestamp columns, which the store maintains
  by itself and which no function below reads or writes, are left out.
  \<open>password\<close> holds a bcrypt digest, \<open>refreshToken\<close> a bcrypt digest or \<^verbatim>\<open>null\<close>.
\<close>

record User =
  id :: string
  email :: string
  password :: string
  role :: UserRole
  refreshToken :: "string option"
  isActive :: bool

text \<open>
  What \<^verbatim>\<open>const { password: _, refreshToken: __, ...userWithoutSensitiveData } = user\<close>
  leaves of a row.
\<close>

record UserView =
  id :: string
  email :: string
  role :: UserRole
  isActive :: bool

record Tokens =
  accessToken :: jwt_string
  refreshToken :: jwt_string

datatype HttpException =
    ConflictException string
  | UnauthorizedException string
  | ForbiddenException string
  | InternalServerErrorException string

text \<open>
  What is injected into the service and the strategies: bcrypt's two functions and the
  four configuration values read through \<^verbatim>\<open>configService.get\<close>. bcrypt is kept as a
  parameter: no property of it is built into the model, and a theorem that needs one
  states it as a hypothesis. \<open>bcrypt_hash D s salt\<close> is \<^verbatim>\<open>bcrypt.hash\<close> on \<open>s\<close> with the
  salt it drew; the two lifetimes are in seconds.
\<close>

record Deps =
  bcrypt_hash :: "jwt_string \<Rightarrow> string \<Rightarrow> string"
  bcrypt_compare :: "jwt_string \<Rightarrow> string \<Rightarrow> bool"
  JWT_SECRET :: string
  JWT_EXPIRATION :: nat
  JWT_REFRESH_SECRET :: string
  JWT_REFRESH_EXPIRATION :: nat

type_synonym Repository = "User list"

section \<open>Token codec\<close>

text \<open>
  \<^verbatim>\<open>jwtService.signAsync(payload, { secret, expiresIn })\<close> at clock second \<open>now\<close>: the
  library stamps \<^verbatim>\<open>iat = now\<close> and \<^verbatim>\<open>exp = now + expiresIn\<close> and signs. Nothing else
  enters the token: no nonce, no token identifier.
\<close>

definition signAsync :: "JwtPayload \<Rightarrow> string \<Rightarrow> nat \<Rightarrow> nat \<Rightarrow> jwt_string" where
  "signAsync payload secret expiresIn now = Jwt payload now (now + expiresIn) secret"

datatype jwt_error = JsonWebTokenError | TokenExpiredError

text \<open>
  Verification as the strategies configure it (\<^verbatim>\<open>ignoreExpiration: false\<close>): a string
  that is not a JWT, or a JWT signed with another key, is malformed; a well-signed one
  is expired once the clock has reached \<^verbatim>\<open>exp\<close>.
\<close>

fun jwt_verify :: "jwt_string \<Rightarrow> string \<Rightarrow> nat \<Rightarrow> jwt_error + JwtPayload" where
  "jwt_verify (Plain s) secret now = Inl JsonWebTokenError"
| "jwt_verify (Jwt payload iat exp k) secret now =
     (if k \<noteq> secret then Inl JsonWebTokenError
      else if exp \<le> now then Inl TokenExpiredError
      else Inr payload)"

section \<open>Repository\<close>

text \<open>\<^verbatim>\<open>findOne({ where: { email } })\<close>: the first row with that exact email.\<close>

definition findOne_by_email :: "Repository \<Rightarrow> string \<Rightarrow> User option" where
  "findOne_by_email users e = find (\<lambda>u. User.email u = e) users"

text \<open>\<^verbatim>\<open>findOne({ where: { id: userId } })\<close>.\<close>

definition findOne_by_id :: "Repository \<Rightarrow> string \<Rightarrow> User option" where
  "findOne_by_id users i = find (\<lambda>u. User.id u = i) users"

text \<open>\<^verbatim>\<open>findOne({ where: { id: payload.sub, isActive: true } })\<close>.\<close>

definition findOne_active_by_id :: "Repository \<Rightarrow> string \<Rightarrow> User option" where
  "findOne_active_by_id users i = find (\<lambda>u. User.id u = i \<and> User.isActive u) users"

text \<open>
  \<^verbatim>\<open>update(id, { refreshToken: v })\<close>: sets the column on the rows with that id and
  succeeds whether or not there is one.
\<close>

definition update_refreshToken :: "Repository \<Rightarrow> string \<Rightarrow> string option \<Rightarrow> Repository" where
  "update_refreshToken users i v =
     map (\<lambda>u. if User.id u = i then u\<lparr>User.refreshToken := v\<rparr> else u) users"

text \<open>
  Modelled from the spec: the entity declaration (\<^verbatim>\<open>entities/user.entity.ts\<close>) is not
  among the sources, so the column defaults are taken from the specification and the
  tests: a principal is created active and with no refresh hash, and its identifier is
  generated by the store (\<open>newId\<close> is the identifier it drew).
\<close>

definition create :: "string \<Rightarrow> string \<Rightarrow> string \<Rightarrow> UserRole \<Rightarrow> User" where
  "create newId e hashedPassword r =
     \<lparr>User.id = newId, User.email = e, User.password = hashedPassword, User.role = r,
      User.refreshToken = None, User.isActive = True\<rparr>"

text \<open>
  Modelled from the spec: the uniqueness constraints are part of the entity declaration,
  which is not among the sources. The specification has the store enforce that emails
  are unique, and the identifier is the primary key: \<^verbatim>\<open>save(user)\<close> inserts the row
  and throws when either is already taken.
\<close>

definition save :: "Repository \<Rightarrow> User \<Rightarrow> Repository option" where
  "save users u =
     (if list_ex (\<lambda>r. User.id r = User.id u \<or> User.email r = User.email u) users
      then None else Some (users @ [u]))"

section \<open>AuthService\<close>

definition userWithoutSensitiveData :: "User \<Rightarrow> UserView" where
  "userWithoutSensitiveData user =
     \<lparr>UserView.id = User.id user, UserView.email = User.email user,
      UserView.role = User.role user, UserView.isActive = User.isActive user\<rparr>"

text \<open>
  \<^verbatim>\<open>register({ email, password, role })\<close>; \<open>salt\<close> is what \<^verbatim>\<open>bcrypt.genSalt(10)\<close> returned.
  \<^verbatim>\<open>role || UserRole.USER\<close> is the case on the optional role.
\<close>

definition register ::
  "Deps \<Rightarrow> Repository \<Rightarrow> string \<Rightarrow> string \<Rightarrow> UserRole option \<Rightarrow> string \<Rightarrow> string
     \<Rightarrow> HttpException + ((string \<times> UserView) \<times> Repository)" where
  "register D users e pw r newId salt =
     (case findOne_by_email users e of
        Some existingUser \<Rightarrow> Inl (ConflictException ''User with this email already exists'')
      | None \<Rightarrow>
          (let hashedPassword = bcrypt_hash D (Plain pw) salt;
               user = create newId e hashedPassword (case r of None \<Rightarrow> USER | Some x \<Rightarrow> x)
           in case save users user of
                None \<Rightarrow> Inl (InternalServerErrorException ''Failed to register user'')
              | Some users' \<Rightarrow>
                  Inr ((''User registered successfully'', userWithoutSensitiveData user), users')))"

text \<open>
  \<^verbatim>\<open>generateTokens(user)\<close>: one payload, signed twice, once per secret and lifetime.
\<close>

definition generateTokens :: "Deps \<Rightarrow> User \<Rightarrow> nat \<Rightarrow> Tokens" where
  "generateTokens D user now =
     (let payload = \<lparr>sub = User.id user, email = User.email user, role = User.role user\<rparr>
      in \<lparr>accessToken = signAsync payload (JWT_SECRET D) (JWT_EXPIRATION D) now,
          refreshToken = signAsync payload (JWT_REFRESH_SECRET D) (JWT_REFRESH_EXPIRATION D) now\<rparr>)"

text \<open>
  \<^verbatim>\<open>login({ email, password })\<close>; \<open>salt\<close> is the salt \<^verbatim>\<open>bcrypt.hash(token, 10)\<close> drew and
  \<open>now\<close> the clock second at which the tokens are signed.
\<close>

definition login ::
  "Deps \<Rightarrow> Repository \<Rightarrow> string \<Rightarrow> string \<Rightarrow> string \<Rightarrow> nat
     \<Rightarrow> HttpException + ((Tokens \<times> UserView) \<times> Repository)" where
  "login D users e pw salt now =
     (case findOne_by_email users e of
        None \<Rightarrow> Inl (UnauthorizedException ''Invalid credentials'')
      | Some user \<Rightarrow>
          if \<not> User.isActive user then Inl (UnauthorizedException ''Account is inactive'')
          else if \<not> bcrypt_compare D (Plain pw) (User.password user)
          then Inl (UnauthorizedException ''Invalid credentials'')
          else
            (let tokens = generateTokens D user now;
                 hashedRefreshToken = bcrypt_hash D (Tokens.refreshToken tokens) salt
             in Inr ((tokens, userWithoutSensitiveData user),
                     update_refreshToken users (User.id user) (Some hashedRefreshToken))))"

text \<open>
  \<^verbatim>\<open>refreshTokens(userId, refreshToken)\<close>. JavaScript's \<^verbatim>\<open>!user.refreshToken\<close> on a
  column of type \<^verbatim>\<open>string | null\<close> is true for \<^verbatim>\<open>null\<close> and for the empty string:
  both are branches here.
\<close>

definition refreshTokens ::
  "Deps \<Rightarrow> Repository \<Rightarrow> string \<Rightarrow> jwt_string \<Rightarrow> string \<Rightarrow> nat
     \<Rightarrow> HttpException + (Tokens \<times> Repository)" where
  "refreshTokens D users userId token salt now =
     (case findOne_by_id users userId of
        None \<Rightarrow> Inl (UnauthorizedException ''Invalid refresh token'')
      | Some user \<Rightarrow>
          (case User.refreshToken user of
             None \<Rightarrow> Inl (UnauthorizedException ''Invalid refresh token'')
           | Some stored \<Rightarrow>
               if stored = [] then Inl (UnauthorizedException ''Invalid refresh token'')
               else if \<not> bcrypt_compare D token stored
               then Inl (UnauthorizedException ''Invalid refresh token'')
               else
                 (let tokens = generateTokens D user now;
                      hashedRefreshToken = bcrypt_hash D (Tokens.refreshToken tokens) salt
                  in Inr (tokens,
                          update_refreshToken users (User.id user) (Some hashedRefreshToken)))))"

definition logout :: "Repository \<Rightarrow> string \<Rightarrow> string \<times> Repository" where
  "logout users userId = (''Logged out successfully'', update_refreshToken users userId None)"

section \<open>Strategies, guards and controllers\<close>

text \<open>
  \<^verbatim>\<open>JwtRefreshStrategy.validate(req, payload)\<close>: the principal is looked up among the
  active rows only, and must hold a refresh hash.
\<close>

definition JwtRefreshStrategy_validate :: "Repository \<Rightarrow> JwtPayload \<Rightarrow> HttpException + User" where
  "JwtRefreshStrategy_validate users payload =
     (case findOne_active_by_id users (sub payload) of
        None \<Rightarrow> Inl (UnauthorizedException ''Invalid refresh token'')
      | Some user \<Rightarrow>
          (case User.refreshToken user of
             None \<Rightarrow> Inl (UnauthorizedException ''Invalid refresh token'')
           | Some stored \<Rightarrow>
               if stored = [] then Inl (UnauthorizedException ''Invalid refresh token'')
               else Inr user))"

text \<open>
  The guard of the \<^verbatim>\<open>jwt-refresh\<close> strategy, as its constructor sets it up: the token
  is the body field \<^verbatim>\<open>refreshToken\<close> (absent: \<open>None\<close>), verified against
  \<^verbatim>\<open>JWT_REFRESH_SECRET\<close> with expiry checked; Passport answers a missing or rejected
  token with its default 401 and otherwise calls \<^verbatim>\<open>validate\<close>.
\<close>

definition JwtRefreshGuard ::
  "Deps \<Rightarrow> Repository \<Rightarrow> jwt_string option \<Rightarrow> nat \<Rightarrow> HttpException + User" where
  "JwtRefreshGuard D users body now =
     (case body of
        None \<Rightarrow> Inl (UnauthorizedException ''Unauthorized'')
      | Some token \<Rightarrow>
          (case jwt_verify token (JWT_REFRESH_SECRET D) now of
             Inl err \<Rightarrow> Inl (UnauthorizedException ''Unauthorized'')
           | Inr payload \<Rightarrow> JwtRefreshStrategy_validate users payload))"

text \<open>\<^verbatim>\<open>POST auth/refresh\<close>: the guard, then \<^verbatim>\<open>refreshTokens(user.id, dto.refreshToken)\<close>.\<close>

definition AuthController_refresh ::
  "Deps \<Rightarrow> Repository \<Rightarrow> jwt_string option \<Rightarrow> string \<Rightarrow> nat
     \<Rightarrow> HttpException + (Tokens \<times> Repository)" where
  "AuthController_refresh D users body salt now =
     (case JwtRefreshGuard D users body now of
        Inl e \<Rightarrow> Inl e
      | Inr user \<Rightarrow>
          (case body of
             None \<Rightarrow> Inl (UnauthorizedException ''Unauthorized'')
           | Some token \<Rightarrow> refreshTokens D users (User.id user) token salt now))"

text \<open>
  Modelled from the spec: the access-token strategy (\<^verbatim>\<open>auth/strategies/jwt.strategy.ts\<close>)
  is not among the sources, only its unit test is. The specification has the
  authentication gate reload the principal from the store to catch deactivation; the
  test fixes the query (\<^verbatim>\<open>{ id: payload.sub, isActive: true }\<close>) and the exception
  (\<^verbatim>\<open>'User not found or inactive'\<close>).
\<close>

definition JwtStrategy_validate :: "Repository \<Rightarrow> JwtPayload \<Rightarrow> HttpException + User" where
  "JwtStrategy_validate users payload =
     (case findOne_active_by_id users (sub payload) of
        None \<Rightarrow> Inl (UnauthorizedException ''User not found or inactive'')
      | Some user \<Rightarrow> Inr user)"

text \<open>
  Modelled from the spec: the guard of the access-token strategy, which verifies the
  bearer token (absent: \<open>None\<close>) against \<^verbatim>\<open>JWT_SECRET\<close>, the key \<^verbatim>\<open>generateTokens\<close>
  signs access tokens with, and then calls the strategy above.
\<close>

definition JwtAuthGuard ::
  "Deps \<Rightarrow> Repository \<Rightarrow> jwt_string option \<Rightarrow> nat \<Rightarrow> HttpException + User" where
  "JwtAuthGuard D users bearer now =
     (case bearer of
        None \<Rightarrow> Inl (UnauthorizedException ''Unauthorized'')
      | Some token \<Rightarrow>
          (case jwt_verify token (JWT_SECRET D) now of
             Inl err \<Rightarrow> Inl (UnauthorizedException ''Unauthorized'')
           | Inr payload \<Rightarrow> JwtStrategy_validate users payload))"

text \<open>
  Modelled from the spec: the roles guard (\<^verbatim>\<open>common/guards/roles.guard.ts\<close>) is not among
  the sources, only its unit test is. The specification's rule: if the required-role
  set is empty, allow; otherwise allow iff the principal's role is in the set; deny
  otherwise. The request's user is \<open>None\<close> when no principal is attached, \<open>Some None\<close>
  when the attached object has no role, and \<open>Some (Some r)\<close> otherwise; the test
  expects a denial in the first two cases when roles are required.
\<close>

definition canActivate :: "UserRole set \<Rightarrow> UserRole option option \<Rightarrow> bool" where
  "canActivate requiredRoles user =
     (if requiredRoles = {} then True
      else (case user of
              None \<Rightarrow> False
            | Some u \<Rightarrow> (case u of None \<Rightarrow> False | Some r \<Rightarrow> r \<in> requiredRoles)))"

text \<open>
  A route of \<^verbatim>\<open>UsersController\<close>: the class-level \<^verbatim>\<open>JwtAuthGuard\<close> runs first, then the
  route's \<^verbatim>\<open>RolesGuard\<close> with the roles of its \<^verbatim>\<open>@Roles\<close> decorator (none for a route
  without one); a guard that returns false is answered with 403. The result is the
  principal the handler receives.
\<close>

definition UsersController_route ::
  "Deps \<Rightarrow> Repository \<Rightarrow> UserRole set \<Rightarrow> jwt_string option \<Rightarrow> nat \<Rightarrow> HttpException + User" where
  "UsersController_route D users requiredRoles bearer now =
     (case JwtAuthGuard D users bearer now of
        Inl e \<Rightarrow> Inl e
      | Inr user \<Rightarrow>
          if canActivate requiredRoles (Some (Some (User.role user))) then Inr user
          else Inl (ForbiddenException ''Forbidden resource''))"

section \<open>Two refresh calls on one principal\<close>

text \<open>
  \<^verbatim>\<open>refreshTokens\<close> touches the store twice, with suspension points (\<^verbatim>\<open>await\<close>) in
  between: it loads the row and checks the presented token against the row it holds,
  and later it signs new tokens from that row and writes the new hash. Another request
  may run between the two. \<open>refresh_read\<close> is the first half, \<open>refresh_write\<close> the
  second.
\<close>

definition refresh_read ::
  "Deps \<Rightarrow> Repository \<Rightarrow> string \<Rightarrow> jwt_string \<Rightarrow> HttpException + User" where
  "refresh_read D users userId token =
     (case findOne_by_id users userId of
        None \<Rightarrow> Inl (UnauthorizedException ''Invalid refresh token'')
      | Some user \<Rightarrow>
          (case User.refreshToken user of
             None \<Rightarrow> Inl (UnauthorizedException ''Invalid refresh token'')
           | Some stored \<Rightarrow>
               if stored = [] then Inl (UnauthorizedException ''Invalid refresh token'')
               else if \<not> bcrypt_compare D token stored
               then Inl (UnauthorizedException ''Invalid refresh token'')
               else Inr user))"

definition refresh_write ::
  "Deps \<Rightarrow> Repository \<Rightarrow> User \<Rightarrow> string \<Rightarrow> nat \<Rightarrow> Tokens \<times> Repository" where
  "refresh_write D users user salt now =
     (let tokens = generateTokens D user now;
          hashedRefreshToken = bcrypt_hash D (Tokens.refreshToken tokens) salt
      in (tokens, update_refreshToken users (User.id user) (Some hashedRefreshToken)))"

text \<open>
  A call in flight: its arguments, the salt it will draw and the clock second at which
  it will sign; and where it stands.
\<close>

record RefreshCall =
  arg_userId :: string
  arg_token :: jwt_string
  drawn_salt :: string
  clock :: nat

datatype call_state = Pending | Loaded User | Finished "HttpException + Tokens"

text \<open>What the second half of a call returns and stores, from the row it holds.\<close>

definition new_tokens :: "Deps \<Rightarrow> User \<Rightarrow> RefreshCall \<Rightarrow> Tokens" where
  "new_tokens D user c = generateTokens D user (clock c)"

definition new_hash :: "Deps \<Rightarrow> User \<Rightarrow> RefreshCall \<Rightarrow> string" where
  "new_hash D user c = bcrypt_hash D (Tokens.refreshToken (new_tokens D user c)) (drawn_salt c)"

definition call_step ::
  "Deps \<Rightarrow> RefreshCall \<Rightarrow> Repository \<times> call_state \<Rightarrow> Repository \<times> call_state" where
  "call_step D c cfg =
     (case cfg of (users, st) \<Rightarrow>
        (case st of
           Pending \<Rightarrow>
             (case refresh_read D users (arg_userId c) (arg_token c) of
                Inl e \<Rightarrow> (users, Finished (Inl e))
              | Inr user \<Rightarrow> (users, Loaded user))
         | Loaded user \<Rightarrow>
             (case refresh_write D users user (drawn_salt c) (clock c) of
                (tokens, users') \<Rightarrow> (users', Finished (Inr tokens)))
         | Finished r \<Rightarrow> (users, Finished r)))"

text \<open>
  Two calls \<open>a\<close> and \<open>b\<close> under a schedule: \<open>True\<close> lets \<open>a\<close> take its next step,
  \<open>False\<close> lets \<open>b\<close>.
\<close>

fun run ::
  "Deps \<Rightarrow> RefreshCall \<Rightarrow> RefreshCall \<Rightarrow> bool list
     \<Rightarrow> Repository \<times> call_state \<times> call_state \<Rightarrow> Repository \<times> call_state \<times> call_state" where
  "run D a b [] cfg = cfg"
| "run D a b (x # xs) (users, sa, sb) =
     (if x then (case call_step D a (users, sa) of (users', sa') \<Rightarrow> run D a b xs (users', sa', sb))
      else (case call_step D b (users, sb) of (users', sb') \<Rightarrow> run D a b xs (users', sa, sb')))"

text \<open>A call has succeeded when it has returned tokens.\<close>

definition succeeded :: "call_state \<Rightarrow> bool" where
  "succeeded st = (case st of Finished (Inr tokens) \<Rightarrow> True | _ \<Rightarrow> False)"

section \<open>What bcrypt reads of a string\<close>

text \<open>
  bcrypt uses only the first 72 bytes of the string it is given, in \<^verbatim>\<open>hash\<close> and in
  \<^verbatim>\<open>compare\<close> alike. For a password that is its first 72 characters. A token is the
  compact form \<^verbatim>\<open>base64url(header).base64url(payload).signature\<close>: the header of an
  HS256 token is a constant of 36 characters, then comes the dot, and the remaining 35
  characters lie within the encoding of the first 27 bytes of the payload. The payload
  is the JSON text of the claims object with \<^verbatim>\<open>iat\<close> and \<^verbatim>\<open>exp\<close> appended, keys in
  insertion order; its fixed characters up to the issue time alone are 36 bytes, so
  those 27 bytes hold nothing but the beginning of \<^verbatim>\<open>sub\<close>, \<^verbatim>\<open>email\<close> and \<^verbatim>\<open>role\<close>
  (for values that need no JSON escaping). Neither the two times nor the signature are
  among the bytes bcrypt reads.
\<close>

definition b64_digit :: "nat \<Rightarrow> char" where
  "b64_digit n = ''ABCDEFGHIJKLMNOPQRSTUVWXYZabcdefghijklmnopqrstuvwxyz0123456789-_'' ! n"

fun base64url :: "string \<Rightarrow> string" where
  "base64url (a # b # c # rest) =
     b64_digit (of_char a div 4)
       # b64_digit (of_char a mod 4 * 16 + of_char b div 16)
       # b64_digit (of_char b mod 16 * 4 + of_char c div 64)
       # b64_digit (of_char c mod 64)
       # base64url rest"
| "base64url [a, b] =
     [b64_digit (of_char a div 4),
      b64_digit (of_char a mod 4 * 16 + of_char b div 16),
      b64_digit (of_char b mod 16 * 4)]"
| "base64url [a] = [b64_digit (of_char a div 4), b64_digit (of_char a mod 4 * 16)]"
| "base64url [] = []"

definition jwt_header :: string where
  \<open>jwt_header = ''{"alg":"HS256","typ":"JWT"}''\<close>

text \<open>
  The string values of the role enumeration, as \<^verbatim>\<open>docs/DEVELOPMENT.md\<close> lists them, and the
  JSON text of a token's payload up to the digits of \<^verbatim>\<open>iat\<close>.
\<close>

definition role_name :: "UserRole \<Rightarrow> string" where
  "role_name r = (case r of USER \<Rightarrow> ''user'' | ADMIN \<Rightarrow> ''admin'' | MODERATOR \<Rightarrow> ''moderator'')"

definition claims_json :: "JwtPayload \<Rightarrow> string" where
  \<open>claims_json p =
     ''{"sub":"'' @ sub p @ ''","email":"'' @ JwtPayload.email p
       @ ''","role":"'' @ role_name (JwtPayload.role p) @ ''","iat":''\<close>

fun first72 :: "jwt_string \<Rightarrow> string" where
  "first72 (Plain s) = take 72 s"
| "first72 (Jwt p i e k) =
     take 72 (base64url jwt_header @ ''.'' @ base64url (take 27 (claims_json p)))"

section \<open>Concrete instances\<close>

text \<open>
  A stand-in for bcrypt on which the model can be run: it reads the first 72 bytes of
  its input and nothing else; the digest is a two-character salt followed by those
  bytes, and comparison reads the presented string the same way and compares. It never
  accepts an empty digest.
\<close>

definition demo :: Deps where
  "demo =
     \<lparr>bcrypt_hash = (\<lambda>s salt. take 2 (salt @ ''..'') @ first72 s),
      bcrypt_compare = (\<lambda>s digest. 2 \<le> length digest \<and> drop 2 digest = first72 s),
      JWT_SECRET = ''access-key'', JWT_EXPIRATION = 2,
      JWT_REFRESH_SECRET = ''refresh-key'', JWT_REFRESH_EXPIRATION = 5\<rparr>"

text \<open>The same, but with one secret and one lifetime configured for both kinds of token.\<close>

definition demo_one_key :: Deps where
  "demo_one_key = demo\<lparr>JWT_REFRESH_SECRET := ''access-key'', JWT_REFRESH_EXPIRATION := 2\<rparr>"

text \<open>A principal as registration with password \<open>pw\<close> leaves it, and its claims.\<close>

definition alice :: User where
  "alice = create ''u1'' ''a@x.com'' (bcrypt_hash demo (Plain ''pw'') ''s0'') USER"

definition alice_claims :: JwtPayload where
  "alice_claims = \<lparr>sub = ''u1'', email = ''a@x.com'', role = USER\<rparr>"

text \<open>
  The refresh token \<open>alice\<close> gets when she logs in at second 1, and the store after a
  login or refresh that issued it and hashed it with \<open>salt\<close>.
\<close>

definition alice_token :: jwt_string where
  "alice_token = Jwt alice_claims 1 6 ''refresh-key''"

definition alice_session :: "string \<Rightarrow> Repository" where
  "alice_session salt = [alice\<lparr>User.refreshToken := Some (bcrypt_hash demo alice_token salt)\<rparr>]"

text \<open>Two refresh calls presenting that token, signing at seconds 2 and 3.\<close>

definition call_a :: RefreshCall where
  "call_a = \<lparr>arg_userId = ''u1'', arg_token = alice_token, drawn_salt = ''s2'', clock = 2\<rparr>"

definition call_b :: RefreshCall where
  "call_b = \<lparr>arg_userId = ''u1'', arg_token = alice_token, drawn_salt = ''s3'', clock = 3\<rparr>"

text \<open>The store after \<open>alice\<close> has refreshed at second 2, drawing the salt \<open>s2\<close>.\<close>

definition alice_rotated :: Repository where
  "alice_rotated =
     [alice\<lparr>User.refreshToken :=
        Some (bcrypt_hash demo (Jwt alice_claims 2 7 ''refresh-key'') ''s2'')\<rparr>]"

text \<open>
  The store when \<open>alice\<close> has been deactivated while her session was live: the row
  still holds the hash of her refresh token.
\<close>

definition alice_deactivated :: Repository where
  "alice_deactivated =
     [alice\<lparr>User.refreshToken := Some (bcrypt_hash demo alice_token ''s1''), User.isActive := False\<rparr>]"

section \<open>Basic facts\<close>

lemma alice_simps:
  "User.id alice = ''u1''" "User.email alice = ''a@x.com''" "User.isActive alice"
  "User.refreshToken alice = None" "User.role alice = USER"
  "User.password alice = ''s0pw''"
  by (simp_all add: alice_def create_def demo_def)

lemma demo_simps:
  "bcrypt_hash demo s salt = take 2 (salt @ ''..'') @ first72 s"
  "bcrypt_compare demo s digest = (2 \<le> length digest \<and> drop 2 digest = first72 s)"
  "JWT_SECRET demo = ''access-key''" "JWT_EXPIRATION demo = 2"
  "JWT_REFRESH_SECRET demo = ''refresh-key''" "JWT_REFRESH_EXPIRATION demo = 5"
  by (simp_all add: demo_def)

lemma eval_defs:
  "alice_token = Jwt alice_claims 1 6 ''refresh-key''"
  "alice_session salt = [alice\<lparr>User.refreshToken := Some (bcrypt_hash demo alice_token salt)\<rparr>]"
  "alice_claims = \<lparr>sub = ''u1'', email = ''a@x.com'', role = USER\<rparr>"
  by (simp_all add: alice_token_def alice_session_def alice_claims_def)

lemma call_simps:
  "arg_userId call_a = ''u1''" "arg_token call_a = alice_token" "drawn_salt call_a = ''s2''"
  "clock call_a = 2"
  "arg_userId call_b = ''u1''" "arg_token call_b = alice_token" "drawn_salt call_b = ''s3''"
  "clock call_b = 3"
  by (simp_all add: call_a_def call_b_def)

text \<open>
  The encoded header, and what bcrypt reads of a token: a function of its claims alone.
  The last lemma checks the encoding against the first 72 characters of the token
  \<^verbatim>\<open>jsonwebtoken\<close> issues for these claims.
\<close>

lemma base64url_header: "base64url jwt_header = ''eyJhbGciOiJIUzI1NiIsInR5cCI6IkpXVCJ9''"
  unfolding jwt_header_def by code_simp

lemma first72_Jwt_head:
  "first72 (Jwt p i e k)
     = ''eyJhbGciOiJIUzI1NiIsInR5cCI6IkpXVCJ9.'' @ take 35 (base64url (take 27 (claims_json p)))"
  by (simp add: base64url_header)

lemma first72_claims_only: "first72 (Jwt p i e k) = first72 (Jwt p i' e' k')"
  by simp

lemma first72_alice_token:
  "first72 alice_token
     = ''eyJhbGciOiJIUzI1NiIsInR5cCI6IkpXVCJ9.eyJzdWIiOiJ1MSIsImVtYWlsIjoiYUB4LmN''"
  unfolding alice_token_def alice_claims_def by code_simp

lemma findOne_by_id_Some: "findOne_by_id users i = Some u \<Longrightarrow> User.id u = i"
  by (auto simp: findOne_by_id_def find_Some_iff)

lemma findOne_by_id_update:
  "findOne_by_id (update_refreshToken users i v) i
     = map_option (\<lambda>u. u\<lparr>User.refreshToken := v\<rparr>) (findOne_by_id users i)"
  by (induction users) (simp_all add: findOne_by_id_def update_refreshToken_def)

lemma update_other:
  "j \<noteq> i \<Longrightarrow> findOne_by_id (update_refreshToken users i v) j = findOne_by_id users j"
  by (induction users) (simp_all add: findOne_by_id_def update_refreshToken_def)

lemma update_refreshToken_twice:
  "update_refreshToken (update_refreshToken users i v) i w = update_refreshToken users i w"
  by (induction users) (simp_all add: update_refreshToken_def)

lemma update_set:
  assumes "u \<in> set (update_refreshToken users i v)" and "User.id u = i"
  shows "User.refreshToken u = v"
proof -
  from assms(1)
  have "u \<in> (\<lambda>x. if User.id x = i then x\<lparr>User.refreshToken := v\<rparr> else x) ` set users"
    by (simp add: update_refreshToken_def)
  then obtain x where x: "u = (if User.id x = i then x\<lparr>User.refreshToken := v\<rparr> else x)"
    by (rule imageE)
  show ?thesis
  proof (cases "User.id x = i")
    case True
    with x show ?thesis by simp
  next
    case False
    with x assms(2) show ?thesis by simp
  qed
qed

lemma findOne_active_after_logout:
  "findOne_active_by_id (update_refreshToken users i None) i = Some u \<Longrightarrow> User.refreshToken u = None"
proof -
  assume "findOne_active_by_id (update_refreshToken users i None) i = Some u"
  then have "u \<in> set (update_refreshToken users i None)" and "User.id u = i"
    by (auto simp: findOne_active_by_id_def find_Some_iff)
  then show ?thesis by (rule update_set)
qed

lemma findOne_active_None:
  "\<forall>u\<in>set users. User.id u = i \<longrightarrow> \<not> User.isActive u \<Longrightarrow> findOne_active_by_id users i = None"
  by (auto simp: findOne_active_by_id_def find_None_iff)

lemma findOne_by_email_None: "findOne_by_email users e = None \<longleftrightarrow> \<not> list_ex (\<lambda>u. User.email u = e) users"
  by (auto simp: findOne_by_email_def find_None_iff list_ex_iff)

text \<open>The two halves of a refresh, run one after the other, are the service method.\<close>

lemma refreshTokens_phases:
  "refreshTokens D users userId token salt now =
     (case refresh_read D users userId token of
        Inl e \<Rightarrow> Inl e
      | Inr user \<Rightarrow> Inr (refresh_write D users user salt now))"
  by (simp add: refreshTokens_def refresh_read_def refresh_write_def Let_def
           split: option.splits)

lemma refresh_read_Inr:
  "refresh_read D users userId token = Inr user \<longleftrightarrow>
     findOne_by_id users userId = Some user \<and>
     (\<exists>stored. User.refreshToken user = Some stored \<and> stored \<noteq> [] \<and> bcrypt_compare D token stored)"
  by (auto simp: refresh_read_def split: option.splits)

lemma refresh_read_after_write:
  assumes "findOne_by_id users userId = Some user"
  shows "refresh_read D (update_refreshToken users userId (Some h)) userId token =
           (if h \<noteq> [] \<and> bcrypt_compare D token h then Inr (user\<lparr>User.refreshToken := Some h\<rparr>)
            else Inl (UnauthorizedException ''Invalid refresh token''))"
  using assms by (simp add: refresh_read_def findOne_by_id_update)

lemma step_read:
  "refresh_read D users (arg_userId c) (arg_token c) = Inr user \<Longrightarrow>
     call_step D c (users, Pending) = (users, Loaded user)"
  by (simp add: call_step_def)

lemma step_write:
  "call_step D c (users, Loaded user)
     = (update_refreshToken users (User.id user) (Some (new_hash D user c)),
        Finished (Inr (new_tokens D user c)))"
  by (simp add: call_step_def refresh_write_def new_hash_def new_tokens_def Let_def)

lemma alice_read:
  "refresh_read demo (alice_session ''s1'') ''u1'' alice_token
     = Inr (alice\<lparr>User.refreshToken := Some (bcrypt_hash demo alice_token ''s1'')\<rparr>)"
  by (simp add: refresh_read_def findOne_by_id_def alice_simps demo_simps eval_defs)

section \<open>Refresh and rotation\<close>

text \<open>
  Whatever bcrypt is, as long as it reads a string through its first 72 bytes and
  accepts what it has hashed: once a refresh has succeeded for a principal, a token
  carrying that principal's claims is accepted again, whenever it was issued and
  whichever token the refresh has just returned.
\<close>

lemma old_token_survives_rotation:
  assumes reads: "\<forall>s s' d. first72 s = first72 s' \<longrightarrow> bcrypt_compare D s d = bcrypt_compare D s' d"
    and accepts: "\<forall>s salt. bcrypt_hash D s salt \<noteq> [] \<and> bcrypt_compare D s (bcrypt_hash D s salt)"
    and found: "findOne_by_id users userId = Some user"
    and old: "old = Jwt \<lparr>sub = User.id user, email = User.email user, role = User.role user\<rparr> i e k"
    and ok: "refreshTokens D users userId presented salt now = Inr (tokens, users')"
  shows "\<exists>r. refreshTokens D users' userId old salt' now' = Inr r"
proof -
  from ok found have rd: "refresh_read D users userId presented = Inr user"
    by (auto simp: refreshTokens_phases refresh_read_Inr split: sum.splits)
  from found have uid: "User.id user = userId" by (rule findOne_by_id_Some)
  from ok rd have st: "users' = update_refreshToken users userId
      (Some (bcrypt_hash D (Tokens.refreshToken (generateTokens D user now)) salt))"
    by (auto simp: refreshTokens_phases refresh_write_def Let_def uid)
  have same: "first72 old = first72 (Tokens.refreshToken (generateTokens D user now))"
    by (simp add: old generateTokens_def signAsync_def Let_def)
  have "bcrypt_compare D old (bcrypt_hash D (Tokens.refreshToken (generateTokens D user now)) salt)"
    using reads [rule_format, OF same] accepts by simp
  with accepts show ?thesis
    by (simp add: refreshTokens_phases st refresh_read_after_write [OF found])
qed

text \<open>
  C1. A refresh is meant to rotate: the refresh token presented should be unusable
  from then on. The code misses that. \<open>alice\<close> logs in at second 1 and is given the
  refresh token \<open>alice_token\<close>, which expires at second 6. At second 2 she refreshes:
  the call succeeds, returns a different refresh token and stores its hash. At second
  3 the old token is presented again, to the service and to the endpoint: it is
  accepted and a new pair is returned, where the rotation should have made it fail
  with \<^verbatim>\<open>'Invalid refresh token'\<close>. The stored hash was computed from the first 72
  bytes of the new token, and the old token has the same 72 bytes. The last conjunct
  is the other way rotation is missed: a refresh in the second in which the presented
  token was issued returns that very token.
\<close>

theorem refresh_old_token_accepted:
  "login demo [alice] ''a@x.com'' ''pw'' ''s1'' 1
     = Inr ((\<lparr>accessToken = Jwt alice_claims 1 3 ''access-key'', refreshToken = alice_token\<rparr>,
             userWithoutSensitiveData alice), alice_session ''s1'')
   \<and> refreshTokens demo (alice_session ''s1'') ''u1'' alice_token ''s2'' 2
     = Inr (\<lparr>accessToken = Jwt alice_claims 2 4 ''access-key'',
             refreshToken = Jwt alice_claims 2 7 ''refresh-key''\<rparr>,
            alice_rotated)
   \<and> Jwt alice_claims 2 7 ''refresh-key'' \<noteq> alice_token
   \<and> refreshTokens demo alice_rotated ''u1'' alice_token ''s3'' 3
     = Inr (\<lparr>accessToken = Jwt alice_claims 3 5 ''access-key'',
             refreshToken = Jwt alice_claims 3 8 ''refresh-key''\<rparr>,
            [alice\<lparr>User.refreshToken :=
               Some (bcrypt_hash demo (Jwt alice_claims 3 8 ''refresh-key'') ''s3'')\<rparr>])
   \<and> AuthController_refresh demo alice_rotated (Some alice_token) ''s3'' 3
     = refreshTokens demo alice_rotated ''u1'' alice_token ''s3'' 3
   \<and> refreshTokens demo (alice_session ''s1'') ''u1'' alice_token ''s2'' 1
     = Inr (\<lparr>accessToken = Jwt alice_claims 1 3 ''access-key'', refreshToken = alice_token\<rparr>,
            alice_session ''s2'')"
  by (simp add: login_def refreshTokens_def findOne_by_email_def findOne_by_id_def
        alice_simps demo_simps generateTokens_def signAsync_def Let_def eval_defs
        alice_rotated_def update_refreshToken_def AuthController_refresh_def
        JwtRefreshGuard_def JwtRefreshStrategy_validate_def findOne_active_by_id_def)

section \<open>Two refresh calls racing on one token\<close>

text \<open>
  C2 (as amended). Two calls of \<^verbatim>\<open>refreshTokens\<close> present the same token, and the
  token matches the stored hash when the row is loaded. In each of the four schedules
  in which both calls load the row before either writes, both calls succeed, each with
  the tokens it signed from the row it loaded, and the stored hash afterwards is that
  of the call that wrote last.
\<close>

theorem two_refresh_calls:
  assumes rd: "refresh_read D users (arg_userId a) (arg_token a) = Inr user"
    and same: "arg_userId b = arg_userId a \<and> arg_token b = arg_token a"
  shows "run D a b [True, False, True, False] (users, Pending, Pending)
              = (update_refreshToken users (arg_userId a) (Some (new_hash D user b)),
                 Finished (Inr (new_tokens D user a)), Finished (Inr (new_tokens D user b)))
       \<and> run D a b [False, True, True, False] (users, Pending, Pending)
              = (update_refreshToken users (arg_userId a) (Some (new_hash D user b)),
                 Finished (Inr (new_tokens D user a)), Finished (Inr (new_tokens D user b)))
       \<and> run D a b [True, False, False, True] (users, Pending, Pending)
              = (update_refreshToken users (arg_userId a) (Some (new_hash D user a)),
                 Finished (Inr (new_tokens D user a)), Finished (Inr (new_tokens D user b)))
       \<and> run D a b [False, True, False, True] (users, Pending, Pending)
              = (update_refreshToken users (arg_userId a) (Some (new_hash D user a)),
                 Finished (Inr (new_tokens D user a)), Finished (Inr (new_tokens D user b)))"
proof -
  from rd have found: "findOne_by_id users (arg_userId a) = Some user"
    by (simp add: refresh_read_Inr)
  then have uid: "User.id user = arg_userId a" by (rule findOne_by_id_Some)
  from same have sb: "arg_userId b = arg_userId a" "arg_token b = arg_token a" by simp_all
  have ra: "call_step D a (users, Pending) = (users, Loaded user)"
    using rd by (rule step_read)
  have rb: "call_step D b (users, Pending) = (users, Loaded user)"
    using rd by (simp add: step_read sb)
  show ?thesis
    by (simp add: ra rb step_write uid update_refreshToken_twice)
qed

theorem two_refresh_calls_witness:
  "refresh_read demo (alice_session ''s1'') (arg_userId call_a) (arg_token call_a)
     = Inr (alice\<lparr>User.refreshToken := Some (bcrypt_hash demo alice_token ''s1'')\<rparr>)
   \<and> arg_userId call_b = arg_userId call_a \<and> arg_token call_b = arg_token call_a
   \<and> run demo call_a call_b [True, False, False, True] (alice_session ''s1'', Pending, Pending)
     = ([alice\<lparr>User.refreshToken :=
           Some (bcrypt_hash demo (Jwt alice_claims 2 7 ''refresh-key'') ''s2'')\<rparr>],
        Finished (Inr \<lparr>accessToken = Jwt alice_claims 2 4 ''access-key'',
                       refreshToken = Jwt alice_claims 2 7 ''refresh-key''\<rparr>),
        Finished (Inr \<lparr>accessToken = Jwt alice_claims 3 5 ''access-key'',
                       refreshToken = Jwt alice_claims 3 8 ''refresh-key''\<rparr>))"
proof -
  have rd: "refresh_read demo (alice_session ''s1'') (arg_userId call_a) (arg_token call_a)
     = Inr (alice\<lparr>User.refreshToken := Some (bcrypt_hash demo alice_token ''s1'')\<rparr>)"
    by (simp add: call_simps alice_read)
  have same: "arg_userId call_b = arg_userId call_a \<and> arg_token call_b = arg_token call_a"
    by (simp add: call_simps)
  from two_refresh_calls [OF rd same] rd same show ?thesis
    by (simp add: new_hash_def new_tokens_def call_simps generateTokens_def signAsync_def
          Let_def alice_simps demo_simps update_refreshToken_def eval_defs)
qed

text \<open>
  C2 as stated fails: nothing makes the load, the check and the write of one call
  atomic; the write is an unconditional \<^verbatim>\<open>update\<close>. Both calls load \<open>alice\<close>'s row
  before either writes, both pass the check, both return tokens, and the store keeps
  the hash written last.
\<close>

theorem racing_refresh_counterexample:
  "run demo call_a call_b [True, False, True, False] (alice_session ''s1'', Pending, Pending)
     = ([alice\<lparr>User.refreshToken :=
           Some (bcrypt_hash demo (Jwt alice_claims 3 8 ''refresh-key'') ''s3'')\<rparr>],
        Finished (Inr \<lparr>accessToken = Jwt alice_claims 2 4 ''access-key'',
                       refreshToken = Jwt alice_claims 2 7 ''refresh-key''\<rparr>),
        Finished (Inr \<lparr>accessToken = Jwt alice_claims 3 5 ''access-key'',
                       refreshToken = Jwt alice_claims 3 8 ''refresh-key''\<rparr>))
   \<and> succeeded (fst (snd (run demo call_a call_b [True, False, True, False]
                              (alice_session ''s1'', Pending, Pending))))
   \<and> succeeded (snd (snd (run demo call_a call_b [True, False, True, False]
                              (alice_session ''s1'', Pending, Pending))))"
  by (simp add: call_step_def refresh_read_def refresh_write_def findOne_by_id_def
        call_simps generateTokens_def signAsync_def Let_def alice_simps demo_simps
        update_refreshToken_def eval_defs succeeded_def)

section \<open>Refresh failures and logout\<close>

text \<open>
  C4. \<^verbatim>\<open>refreshTokens(userId, refreshToken)\<close> fails with \<^verbatim>\<open>'Invalid refresh token'\<close>
  exactly when no principal has the identifier, or its stored refresh hash is
  \<^verbatim>\<open>null\<close>, or bcrypt does not match the presented token against the stored hash;
  it has no other failure. After \<^verbatim>\<open>logout(userId)\<close> it fails so for every token, and
  so does the whole \<^verbatim>\<open>POST auth/refresh\<close> for a token that verifies and names that
  principal. The hypothesis is that bcrypt matches nothing against an empty digest
  (the code treats an empty stored string like \<^verbatim>\<open>null\<close>).
\<close>

theorem refresh_failure_exact:
  assumes empty: "\<forall>t. \<not> bcrypt_compare D t []"
  shows "((refreshTokens D users userId token salt now = Inl (UnauthorizedException ''Invalid refresh token''))
          = (case findOne_by_id users userId of
               None \<Rightarrow> True
             | Some user \<Rightarrow> (case User.refreshToken user of
                                None \<Rightarrow> True
                              | Some stored \<Rightarrow> \<not> bcrypt_compare D token stored)))
       \<and> (\<forall>e. refreshTokens D users userId token salt now = Inl e \<longrightarrow>
              e = UnauthorizedException ''Invalid refresh token'')
       \<and> refreshTokens D (snd (logout users userId)) userId token salt now
            = Inl (UnauthorizedException ''Invalid refresh token'')
       \<and> (\<forall>p. jwt_verify token (JWT_REFRESH_SECRET D) now = Inr p \<and> sub p = userId \<longrightarrow>
              AuthController_refresh D (snd (logout users userId)) (Some token) salt now
                = Inl (UnauthorizedException ''Invalid refresh token''))"
proof -
  have a: "(refreshTokens D users userId token salt now = Inl (UnauthorizedException ''Invalid refresh token''))
          = (case findOne_by_id users userId of
               None \<Rightarrow> True
             | Some user \<Rightarrow> (case User.refreshToken user of
                                None \<Rightarrow> True
                              | Some stored \<Rightarrow> \<not> bcrypt_compare D token stored))"
    using empty by (simp add: refreshTokens_def Let_def split: option.splits)
  have b: "\<forall>e. refreshTokens D users userId token salt now = Inl e \<longrightarrow>
              e = UnauthorizedException ''Invalid refresh token''"
    by (auto simp: refreshTokens_def Let_def split: option.splits if_splits)
  have c: "refreshTokens D (snd (logout users userId)) userId token salt now
            = Inl (UnauthorizedException ''Invalid refresh token'')"
    by (simp add: refreshTokens_def logout_def findOne_by_id_update split: option.splits)
  have d: "AuthController_refresh D (snd (logout users userId)) (Some token) salt now
                = Inl (UnauthorizedException ''Invalid refresh token'')"
    if "jwt_verify token (JWT_REFRESH_SECRET D) now = Inr p" "sub p = userId" for p
    using that
    by (auto simp: AuthController_refresh_def JwtRefreshGuard_def JwtRefreshStrategy_validate_def
          logout_def split: option.splits dest: findOne_active_after_logout)
  from a b c d show ?thesis by blast
qed

theorem refresh_failure_exact_witness:
  "(\<forall>t. \<not> bcrypt_compare demo t [])
   \<and> refreshTokens demo (alice_session ''s1'') ''u1'' (Plain ''guess'') ''s2'' 2
       = Inl (UnauthorizedException ''Invalid refresh token'')
   \<and> refreshTokens demo (alice_session ''s1'') ''u2'' alice_token ''s2'' 2
       = Inl (UnauthorizedException ''Invalid refresh token'')
   \<and> refreshTokens demo (snd (logout (alice_session ''s1'') ''u1'')) ''u1'' alice_token ''s2'' 2
       = Inl (UnauthorizedException ''Invalid refresh token'')
   \<and> AuthController_refresh demo (snd (logout (alice_session ''s1'') ''u1'')) (Some alice_token) ''s2'' 2
       = Inl (UnauthorizedException ''Invalid refresh token'')"
proof -
  have e: "\<forall>t. \<not> bcrypt_compare demo t []" by (simp add: demo_simps)
  have v: "jwt_verify alice_token (JWT_REFRESH_SECRET demo) 2 = Inr alice_claims \<and> sub alice_claims = ''u1''"
    by (simp add: demo_simps eval_defs)
  have f1: "findOne_by_id (alice_session ''s1'') ''u1''
              = Some (alice\<lparr>User.refreshToken := Some (bcrypt_hash demo alice_token ''s1'')\<rparr>)"
    by (simp add: findOne_by_id_def eval_defs alice_simps)
  have f2: "findOne_by_id (alice_session ''s1'') ''u2'' = None"
    by (simp add: findOne_by_id_def eval_defs alice_simps)
  have nm: "\<not> bcrypt_compare demo (Plain ''guess'') (bcrypt_hash demo alice_token ''s1'')"
    by (simp add: demo_simps first72_alice_token)
  note t1 = refresh_failure_exact [OF e, of "alice_session ''s1''" "''u1''" "Plain ''guess''" "''s2''" 2]
  note t2 = refresh_failure_exact [OF e, of "alice_session ''s1''" "''u2''" alice_token "''s2''" 2]
  note t3 = refresh_failure_exact [OF e, of "alice_session ''s1''" "''u1''" alice_token "''s2''" 2]
  have w1: "refreshTokens demo (alice_session ''s1'') ''u1'' (Plain ''guess'') ''s2'' 2
       = Inl (UnauthorizedException ''Invalid refresh token'')"
    using t1 [THEN conjunct1] nm by (simp add: f1)
  have w2: "refreshTokens demo (alice_session ''s1'') ''u2'' alice_token ''s2'' 2
       = Inl (UnauthorizedException ''Invalid refresh token'')"
    using t2 [THEN conjunct1] by (simp add: f2)
  have w3: "refreshTokens demo (snd (logout (alice_session ''s1'') ''u1'')) ''u1'' alice_token ''s2'' 2
       = Inl (UnauthorizedException ''Invalid refresh token'')"
    using t3 [THEN conjunct2, THEN conjunct2, THEN conjunct1] .
  have w4: "AuthController_refresh demo (snd (logout (alice_session ''s1'') ''u1'')) (Some alice_token) ''s2'' 2
       = Inl (UnauthorizedException ''Invalid refresh token'')"
    using t3 [THEN conjunct2, THEN conjunct2, THEN conjunct2, THEN spec, of alice_claims] v by simp
  from e w1 w2 w3 w4 show ?thesis by (intro conjI)
qed

text \<open>
  C9. \<^verbatim>\<open>logout(userId)\<close> has no failing branch and returns its acknowledgement; the
  principal with that identifier is afterwards the same row with the refresh hash set
  to \<^verbatim>\<open>null\<close>, whatever it held; no row with that identifier keeps a hash, the other
  principals are found unchanged; and logging out again returns the same
  acknowledgement and the same store.
\<close>

theorem logout_idempotent:
  "fst (logout users userId) = ''Logged out successfully''
   \<and> (\<forall>user. findOne_by_id users userId = Some user \<longrightarrow>
        findOne_by_id (snd (logout users userId)) userId = Some (user\<lparr>User.refreshToken := None\<rparr>))
   \<and> (\<forall>u \<in> set (snd (logout users userId)). User.id u = userId \<longrightarrow> User.refreshToken u = None)
   \<and> (\<forall>j. j \<noteq> userId \<longrightarrow> findOne_by_id (snd (logout users userId)) j = findOne_by_id users j)
   \<and> logout (snd (logout users userId)) userId = logout users userId"
  by (auto simp: logout_def findOne_by_id_update update_refreshToken_twice update_other
           dest: update_set)

theorem logout_idempotent_witness:
  "findOne_by_id (alice_session ''s1'') ''u1''
     = Some (alice\<lparr>User.refreshToken := Some (bcrypt_hash demo alice_token ''s1'')\<rparr>)
   \<and> logout (alice_session ''s1'') ''u1'' = (''Logged out successfully'', [alice])
   \<and> logout [alice] ''u1'' = (''Logged out successfully'', [alice])"
  using logout_idempotent [of "alice_session ''s1''" "''u1''"]
  by (simp add: logout_def update_refreshToken_def findOne_by_id_def eval_defs alice_simps alice_def create_def)

section \<open>Login\<close>

text \<open>
  C5. \<^verbatim>\<open>login(email, password)\<close> fails with \<^verbatim>\<open>'Invalid credentials'\<close> when no principal
  has that email; when there is one and it is inactive it fails with
  \<^verbatim>\<open>'Account is inactive'\<close>, whatever the password (the check stands before the
  password comparison); when it is active and bcrypt rejects the password it fails with
  \<^verbatim>\<open>'Invalid credentials'\<close>, the very exception of the unknown email; and otherwise it
  succeeds. The inactive-account exception is a different value.
\<close>

theorem login_failure_order:
  "(findOne_by_email users e = None \<longrightarrow>
      login D users e pw salt now = Inl (UnauthorizedException ''Invalid credentials''))
   \<and> (\<forall>user. findOne_by_email users e = Some user \<and> \<not> User.isActive user \<longrightarrow>
      login D users e pw salt now = Inl (UnauthorizedException ''Account is inactive''))
   \<and> (\<forall>user. findOne_by_email users e = Some user \<and> User.isActive user
        \<and> \<not> bcrypt_compare D (Plain pw) (User.password user) \<longrightarrow>
      login D users e pw salt now = Inl (UnauthorizedException ''Invalid credentials''))
   \<and> (\<forall>user. findOne_by_email users e = Some user \<and> User.isActive user
        \<and> bcrypt_compare D (Plain pw) (User.password user) \<longrightarrow>
      (\<exists>r. login D users e pw salt now = Inr r))
   \<and> UnauthorizedException ''Account is inactive'' \<noteq> UnauthorizedException ''Invalid credentials''"
  by (simp add: login_def Let_def)

theorem login_failure_order_witness:
  "login demo [] ''a@x.com'' ''pw'' ''s1'' 1 = Inl (UnauthorizedException ''Invalid credentials'')
   \<and> login demo [alice\<lparr>User.isActive := False\<rparr>] ''a@x.com'' ''pw'' ''s1'' 1
       = Inl (UnauthorizedException ''Account is inactive'')
   \<and> login demo [alice\<lparr>User.isActive := False\<rparr>] ''a@x.com'' ''wrong'' ''s1'' 1
       = Inl (UnauthorizedException ''Account is inactive'')
   \<and> login demo [alice] ''a@x.com'' ''wrong'' ''s1'' 1
       = Inl (UnauthorizedException ''Invalid credentials'')
   \<and> (\<exists>r. login demo [alice] ''a@x.com'' ''pw'' ''s1'' 1 = Inr r)"
  using login_failure_order [of "[]" "''a@x.com''" demo "''pw''" "''s1''" 1]
    login_failure_order [of "[alice\<lparr>User.isActive := False\<rparr>]" "''a@x.com''" demo "''pw''" "''s1''" 1]
    login_failure_order [of "[alice\<lparr>User.isActive := False\<rparr>]" "''a@x.com''" demo "''wrong''" "''s1''" 1]
    login_failure_order [of "[alice]" "''a@x.com''" demo "''wrong''" "''s1''" 1]
    login_failure_order [of "[alice]" "''a@x.com''" demo "''pw''" "''s1''" 1]
  by (simp add: findOne_by_email_def alice_simps demo_simps)

text \<open>
  C7. An inactive principal is never authenticated. \<^verbatim>\<open>login\<close> on an inactive principal
  fails with \<^verbatim>\<open>'Account is inactive'\<close> whatever the password. When every row that
  carries a token's subject is inactive, both strategies reject the claims, because
  they look the principal up among the active rows only: \<^verbatim>\<open>POST auth/refresh\<close> with a
  refresh token that verifies fails with \<^verbatim>\<open>'Invalid refresh token'\<close>, and a guarded
  route with an access token that verifies fails with \<^verbatim>\<open>'User not found or inactive'\<close>
  for every required-role set: the roles guard is not reached. None of this depends
  on the refresh hash the row holds. (\<^verbatim>\<open>refreshTokens\<close> itself does not look at
  \<open>isActive\<close>; the guard in front of it does.)
\<close>

theorem inactive_never_authenticated:
  "(\<forall>user. findOne_by_email users e = Some user \<and> \<not> User.isActive user \<longrightarrow>
       login D users e pw salt now = Inl (UnauthorizedException ''Account is inactive''))
   \<and> ((\<forall>u\<in>set users. User.id u = sub p \<longrightarrow> \<not> User.isActive u) \<longrightarrow>
         JwtRefreshStrategy_validate users p = Inl (UnauthorizedException ''Invalid refresh token'')
       \<and> JwtStrategy_validate users p = Inl (UnauthorizedException ''User not found or inactive'')
       \<and> (jwt_verify token (JWT_REFRESH_SECRET D) now = Inr p \<longrightarrow>
            AuthController_refresh D users (Some token) salt now
              = Inl (UnauthorizedException ''Invalid refresh token''))
       \<and> (jwt_verify token (JWT_SECRET D) now = Inr p \<longrightarrow>
            UsersController_route D users requiredRoles (Some token) now
              = Inl (UnauthorizedException ''User not found or inactive'')))"
proof -
  have a: "login D users e pw salt now = Inl (UnauthorizedException ''Account is inactive'')"
    if "findOne_by_email users e = Some user" "\<not> User.isActive user" for user
    using that by (simp add: login_def)
  have b: "JwtRefreshStrategy_validate users p = Inl (UnauthorizedException ''Invalid refresh token'')
       \<and> JwtStrategy_validate users p = Inl (UnauthorizedException ''User not found or inactive'')
       \<and> (jwt_verify token (JWT_REFRESH_SECRET D) now = Inr p \<longrightarrow>
            AuthController_refresh D users (Some token) salt now
              = Inl (UnauthorizedException ''Invalid refresh token''))
       \<and> (jwt_verify token (JWT_SECRET D) now = Inr p \<longrightarrow>
            UsersController_route D users requiredRoles (Some token) now
              = Inl (UnauthorizedException ''User not found or inactive''))"
    if "\<forall>u\<in>set users. User.id u = sub p \<longrightarrow> \<not> User.isActive u"
  proof -
    from that have none: "findOne_active_by_id users (sub p) = None"
      by (rule findOne_active_None)
    show ?thesis
      by (simp add: JwtRefreshStrategy_validate_def JwtStrategy_validate_def
            AuthController_refresh_def JwtRefreshGuard_def UsersController_route_def
            JwtAuthGuard_def none)
  qed
  from a b show ?thesis by blast
qed

theorem inactive_never_authenticated_witness:
  "findOne_by_email alice_deactivated ''a@x.com''
     = Some (alice\<lparr>User.refreshToken := Some (bcrypt_hash demo alice_token ''s1''), User.isActive := False\<rparr>)
   \<and> login demo alice_deactivated ''a@x.com'' ''pw'' ''s2'' 2
     = Inl (UnauthorizedException ''Account is inactive'')
   \<and> jwt_verify alice_token (JWT_REFRESH_SECRET demo) 2 = Inr alice_claims
   \<and> AuthController_refresh demo alice_deactivated (Some alice_token) ''s2'' 2
     = Inl (UnauthorizedException ''Invalid refresh token'')
   \<and> jwt_verify (Jwt alice_claims 1 3 ''access-key'') (JWT_SECRET demo) 2 = Inr alice_claims
   \<and> UsersController_route demo alice_deactivated {} (Some (Jwt alice_claims 1 3 ''access-key'')) 2
     = Inl (UnauthorizedException ''User not found or inactive'')"
proof -
  have f: "findOne_by_email alice_deactivated ''a@x.com''
     = Some (alice\<lparr>User.refreshToken := Some (bcrypt_hash demo alice_token ''s1''), User.isActive := False\<rparr>)"
    by (simp add: findOne_by_email_def alice_deactivated_def alice_simps)
  have i: "\<forall>u\<in>set alice_deactivated. User.id u = sub alice_claims \<longrightarrow> \<not> User.isActive u"
    by (simp add: alice_deactivated_def)
  have v1: "jwt_verify alice_token (JWT_REFRESH_SECRET demo) 2 = Inr alice_claims"
    by (simp add: demo_simps eval_defs)
  have v2: "jwt_verify (Jwt alice_claims 1 3 ''access-key'') (JWT_SECRET demo) 2 = Inr alice_claims"
    by (simp add: demo_simps)
  note t1 = inactive_never_authenticated
    [of alice_deactivated "''a@x.com''" demo "''pw''" "''s2''" 2 alice_claims alice_token "{}"]
  note t2 = inactive_never_authenticated
    [of alice_deactivated "''a@x.com''" demo "''pw''" "''s2''" 2 alice_claims
        "Jwt alice_claims 1 3 ''access-key''" "{}"]
  have w1: "login demo alice_deactivated ''a@x.com'' ''pw'' ''s2'' 2
     = Inl (UnauthorizedException ''Account is inactive'')"
    using t1 [THEN conjunct1, THEN spec, THEN mp, OF conjI, OF f] by simp
  have w2: "AuthController_refresh demo alice_deactivated (Some alice_token) ''s2'' 2
     = Inl (UnauthorizedException ''Invalid refresh token'')"
    using t1 [THEN conjunct2, THEN mp, OF i] v1 by simp
  have w3: "UsersController_route demo alice_deactivated {} (Some (Jwt alice_claims 1 3 ''access-key'')) 2
     = Inl (UnauthorizedException ''User not found or inactive'')"
    using t2 [THEN conjunct2, THEN mp, OF i] v2 by simp
  from f w1 v1 w2 v2 w3 show ?thesis by (intro conjI)
qed

section \<open>Registration\<close>

text \<open>
  C6. \<^verbatim>\<open>register(email, password, role?)\<close> fails with the conflict exception exactly
  when a row has that very email (string equality, no case folding). Otherwise, the
  store having drawn an unused identifier, it appends a row with the given email, the
  given role or \<open>USER\<close> when none is given, the bcrypt hash of the password as its
  password, no refresh hash, active; and it returns that row without the password and
  the refresh hash. A second registration of the email, after a successful one, fails
  with the conflict exception whatever else it is given.
\<close>

theorem register_duplicate:
  "((register D users e pw r newId salt = Inl (ConflictException ''User with this email already exists''))
      = list_ex (\<lambda>u. User.email u = e) users)
   \<and> (\<not> list_ex (\<lambda>u. User.email u = e) users \<and> \<not> list_ex (\<lambda>u. User.id u = newId) users \<longrightarrow>
        register D users e pw r newId salt
          = Inr ((''User registered successfully'',
                  \<lparr>UserView.id = newId, UserView.email = e,
                   UserView.role = (case r of None \<Rightarrow> USER | Some x \<Rightarrow> x), UserView.isActive = True\<rparr>),
                 users @ [\<lparr>User.id = newId, User.email = e,
                           User.password = bcrypt_hash D (Plain pw) salt,
                           User.role = (case r of None \<Rightarrow> USER | Some x \<Rightarrow> x),
                           User.refreshToken = None, User.isActive = True\<rparr>]))
   \<and> (\<forall>res users'. register D users e pw r newId salt = Inr (res, users') \<longrightarrow>
        register D users' e pw2 r2 newId2 salt2
          = Inl (ConflictException ''User with this email already exists''))"
proof -
  have a: "(register D users e pw r newId salt = Inl (ConflictException ''User with this email already exists''))
      = list_ex (\<lambda>u. User.email u = e) users"
  proof (cases "findOne_by_email users e")
    case None
    then show ?thesis
      using findOne_by_email_None [of users e]
      by (simp add: register_def Let_def split: option.splits)
  next
    case (Some u)
    then show ?thesis
      using findOne_by_email_None [of users e] by (simp add: register_def)
  qed
  have b: "register D users e pw r newId salt
          = Inr ((''User registered successfully'',
                  \<lparr>UserView.id = newId, UserView.email = e,
                   UserView.role = (case r of None \<Rightarrow> USER | Some x \<Rightarrow> x), UserView.isActive = True\<rparr>),
                 users @ [\<lparr>User.id = newId, User.email = e,
                           User.password = bcrypt_hash D (Plain pw) salt,
                           User.role = (case r of None \<Rightarrow> USER | Some x \<Rightarrow> x),
                           User.refreshToken = None, User.isActive = True\<rparr>])"
    if "\<not> list_ex (\<lambda>u. User.email u = e) users" "\<not> list_ex (\<lambda>u. User.id u = newId) users"
  proof -
    from that(1) have "findOne_by_email users e = None"
      by (simp add: findOne_by_email_None)
    with that show ?thesis
      by (simp add: register_def Let_def save_def create_def
            userWithoutSensitiveData_def list_ex_iff)
  qed
  have c: "register D users' e pw2 r2 newId2 salt2
          = Inl (ConflictException ''User with this email already exists'')"
    if "register D users e pw r newId salt = Inr (res, users')" for res users'
  proof -
    from that have "users' = users @ [create newId e (bcrypt_hash D (Plain pw) salt) (case r of None \<Rightarrow> USER | Some x \<Rightarrow> x)]"
      by (cases "findOne_by_email users e")
         (simp_all add: register_def Let_def save_def split: if_splits)
    then have "list_ex (\<lambda>u. User.email u = e) users'"
      by (simp add: create_def list_ex_iff)
    then obtain u where "findOne_by_email users' e = Some u"
      using findOne_by_email_None [of users' e] by (cases "findOne_by_email users' e") auto
    then show ?thesis
      by (simp add: register_def)
  qed
  from a b c show ?thesis by blast
qed

theorem register_duplicate_witness:
  "\<not> list_ex (\<lambda>u. User.email u = ''a@x.com'') [] \<and> \<not> list_ex (\<lambda>u. User.id u = ''u1'') []
   \<and> register demo [] ''a@x.com'' ''pw'' None ''u1'' ''s0''
       = Inr ((''User registered successfully'',
               \<lparr>UserView.id = ''u1'', UserView.email = ''a@x.com'', UserView.role = USER,
                UserView.isActive = True\<rparr>), [alice])
   \<and> register demo [alice] ''a@x.com'' ''other'' (Some ADMIN) ''u2'' ''s1''
       = Inl (ConflictException ''User with this email already exists'')
   \<and> \<not> list_ex (\<lambda>u. User.email u = ''A@x.com'') [alice]
   \<and> register demo [alice] ''A@x.com'' ''pw'' (Some ADMIN) ''u2'' ''s1''
       = Inr ((''User registered successfully'',
               \<lparr>UserView.id = ''u2'', UserView.email = ''A@x.com'', UserView.role = ADMIN,
                UserView.isActive = True\<rparr>),
              [alice, create ''u2'' ''A@x.com'' (bcrypt_hash demo (Plain ''pw'') ''s1'') ADMIN])"
proof -
  note t1 = register_duplicate [of demo "[]" "''a@x.com''" "''pw''" None "''u1''" "''s0''"
      "''other''" "Some ADMIN" "''u2''" "''s1''"]
  note t2 = register_duplicate [of demo "[alice]" "''A@x.com''" "''pw''" "Some ADMIN" "''u2''" "''s1''"]
  have n1: "\<not> list_ex (\<lambda>u. User.email u = ''a@x.com'') [] \<and> \<not> list_ex (\<lambda>u. User.id u = ''u1'') []"
    by simp
  have n2: "\<not> list_ex (\<lambda>u. User.email u = ''A@x.com'') [alice] \<and> \<not> list_ex (\<lambda>u. User.id u = ''u2'') [alice]"
    by (simp add: alice_simps)
  have w1: "register demo [] ''a@x.com'' ''pw'' None ''u1'' ''s0''
       = Inr ((''User registered successfully'',
               \<lparr>UserView.id = ''u1'', UserView.email = ''a@x.com'', UserView.role = USER,
                UserView.isActive = True\<rparr>), [alice])"
    using t1 [THEN conjunct2, THEN conjunct1, THEN mp, OF n1]
    by (simp add: alice_def create_def)
  have w2: "register demo [alice] ''a@x.com'' ''other'' (Some ADMIN) ''u2'' ''s1''
       = Inl (ConflictException ''User with this email already exists'')"
    using t1 [THEN conjunct2, THEN conjunct2, THEN spec, THEN spec, THEN mp, OF w1] .
  have w3: "register demo [alice] ''A@x.com'' ''pw'' (Some ADMIN) ''u2'' ''s1''
       = Inr ((''User registered successfully'',
               \<lparr>UserView.id = ''u2'', UserView.email = ''A@x.com'', UserView.role = ADMIN,
                UserView.isActive = True\<rparr>),
              [alice, create ''u2'' ''A@x.com'' (bcrypt_hash demo (Plain ''pw'') ''s1'') ADMIN])"
    using t2 [THEN conjunct2, THEN conjunct1, THEN mp, OF n2]
    by (simp add: create_def)
  from n1 w1 w2 n2 w3 show ?thesis by (intro conjI) simp_all
qed

section \<open>The two kinds of token\<close>

text \<open>
  C8. When the two configured secrets differ, a token signed over any claims with the
  access secret and lifetime is rejected as malformed by verification against the
  refresh secret, and one signed with the refresh secret by verification against the
  access secret; so are the two tokens \<^verbatim>\<open>generateTokens\<close> returns, and the refresh
  guard and \<^verbatim>\<open>POST auth/refresh\<close> answer an access token with 401.
\<close>

theorem tokens_not_interchangeable:
  assumes "JWT_SECRET D \<noteq> JWT_REFRESH_SECRET D"
  shows "jwt_verify (signAsync payload (JWT_SECRET D) (JWT_EXPIRATION D) now) (JWT_REFRESH_SECRET D) now'
           = Inl JsonWebTokenError
       \<and> jwt_verify (signAsync payload (JWT_REFRESH_SECRET D) (JWT_REFRESH_EXPIRATION D) now) (JWT_SECRET D) now'
           = Inl JsonWebTokenError
       \<and> jwt_verify (accessToken (generateTokens D user now)) (JWT_REFRESH_SECRET D) now'
           = Inl JsonWebTokenError
       \<and> jwt_verify (Tokens.refreshToken (generateTokens D user now)) (JWT_SECRET D) now'
           = Inl JsonWebTokenError
       \<and> JwtRefreshGuard D users (Some (accessToken (generateTokens D user now))) now'
           = Inl (UnauthorizedException ''Unauthorized'')
       \<and> AuthController_refresh D users (Some (accessToken (generateTokens D user now))) salt now'
           = Inl (UnauthorizedException ''Unauthorized'')"
  using assms
  by (auto simp: generateTokens_def signAsync_def Let_def JwtRefreshGuard_def AuthController_refresh_def)

theorem tokens_not_interchangeable_witness:
  "JWT_SECRET demo \<noteq> JWT_REFRESH_SECRET demo
   \<and> jwt_verify (accessToken (generateTokens demo alice 1)) (JWT_REFRESH_SECRET demo) 2
           = Inl JsonWebTokenError
   \<and> jwt_verify (Tokens.refreshToken (generateTokens demo alice 1)) (JWT_SECRET demo) 2
           = Inl JsonWebTokenError
   \<and> jwt_verify (Tokens.refreshToken (generateTokens demo alice 1)) (JWT_REFRESH_SECRET demo) 2
           = Inr alice_claims
   \<and> AuthController_refresh demo (alice_session ''s1'')
         (Some (accessToken (generateTokens demo alice 1))) ''s2'' 2
           = Inl (UnauthorizedException ''Unauthorized'')"
proof -
  have ne: "JWT_SECRET demo \<noteq> JWT_REFRESH_SECRET demo" by (simp add: demo_simps)
  have ok: "jwt_verify (Tokens.refreshToken (generateTokens demo alice 1)) (JWT_REFRESH_SECRET demo) 2
           = Inr alice_claims"
    by (simp add: generateTokens_def signAsync_def Let_def demo_simps alice_simps eval_defs)
  from tokens_not_interchangeable [OF ne, of alice_claims 1 2 alice "alice_session ''s1''" "''s2''"]
    ne ok
  show ?thesis by blast
qed

text \<open>
  C10. The two tokens of a pair are signed over one and the same claims (subject,
  email and role of the row) at the same second; they differ in the key and the
  expiry only. Nothing compares the two secrets: \<^verbatim>\<open>generateTokens\<close> returns a pair for
  every configuration, the two tokens are one and the same string exactly when the
  secrets and the lifetimes coincide, and with equal secrets the access token passes
  verification against the refresh secret until it expires.
\<close>

theorem one_payload_two_keys:
  "accessToken (generateTokens D user now)
     = Jwt \<lparr>sub = User.id user, email = User.email user, role = User.role user\<rparr>
         now (now + JWT_EXPIRATION D) (JWT_SECRET D)
   \<and> Tokens.refreshToken (generateTokens D user now)
     = Jwt \<lparr>sub = User.id user, email = User.email user, role = User.role user\<rparr>
         now (now + JWT_REFRESH_EXPIRATION D) (JWT_REFRESH_SECRET D)
   \<and> (accessToken (generateTokens D user now) = Tokens.refreshToken (generateTokens D user now)
        \<longleftrightarrow> JWT_SECRET D = JWT_REFRESH_SECRET D \<and> JWT_EXPIRATION D = JWT_REFRESH_EXPIRATION D)
   \<and> (JWT_SECRET D = JWT_REFRESH_SECRET D \<and> now' < now + JWT_EXPIRATION D \<longrightarrow>
        jwt_verify (accessToken (generateTokens D user now)) (JWT_REFRESH_SECRET D) now'
          = Inr \<lparr>sub = User.id user, email = User.email user, role = User.role user\<rparr>)"
  by (auto simp: generateTokens_def signAsync_def Let_def)

theorem one_payload_two_keys_witness:
  "JWT_SECRET demo_one_key = JWT_REFRESH_SECRET demo_one_key \<and> (2::nat) < 1 + JWT_EXPIRATION demo_one_key
   \<and> accessToken (generateTokens demo_one_key alice 1) = Jwt alice_claims 1 3 ''access-key''
   \<and> Tokens.refreshToken (generateTokens demo_one_key alice 1) = Jwt alice_claims 1 3 ''access-key''
   \<and> jwt_verify (accessToken (generateTokens demo_one_key alice 1)) (JWT_REFRESH_SECRET demo_one_key) 2
        = Inr alice_claims"
  using one_payload_two_keys [of demo_one_key alice 1 2]
  by (simp add: demo_one_key_def demo_simps alice_simps eval_defs)

section \<open>Roles guard\<close>

text \<open>
  C3. The guard allows every request when no role is required. When the set of
  required roles is not empty it allows a principal with role \<open>r\<close> exactly when \<open>r\<close>
  is in the set, and denies a request with no principal or with a principal that has
  no role. The decision is a function of the set and the role alone. The last four
  conjuncts are the rows of the truth table.
\<close>

theorem roles_guard_decision:
  "(canActivate {} user)
   \<and> (S \<noteq> {} \<longrightarrow> canActivate S (Some (Some r)) = (r \<in> S))
   \<and> (S \<noteq> {} \<longrightarrow> \<not> canActivate S None \<and> \<not> canActivate S (Some None))
   \<and> canActivate {ADMIN} (Some (Some ADMIN))
   \<and> \<not> canActivate {ADMIN} (Some (Some USER))
   \<and> canActivate {ADMIN, MODERATOR} (Some (Some MODERATOR))
   \<and> \<not> canActivate {ADMIN, MODERATOR} (Some (Some USER))"
  by (simp add: canActivate_def)

theorem roles_guard_decision_witness:
  "{ADMIN} \<noteq> {} \<and> canActivate {ADMIN} (Some (Some ADMIN)) = (ADMIN \<in> {ADMIN})
   \<and> \<not> canActivate {ADMIN} None \<and> \<not> canActivate {ADMIN} (Some None)
   \<and> canActivate {} (Some (Some USER))"
  using roles_guard_decision [of "Some (Some USER)" "{ADMIN}" ADMIN] by simp

end
